theory Spec2Isabelle
  imports Main "HOL-Library.Sublist" "HOL-Library.Multiset"
begin

section \<open>Python values used by pyhkp\<close>

text \<open>
  Strings are lists of characters; \<open>len\<close> is \<open>length\<close>. The exceptions the module can
  raise are values: \<open>ValueError\<close> carries the message of the three explicit \<open>raise\<close>
  statements of the source (and of \<open>int\<close>), the others are the interpreter's own.
  \<open>TimestampError\<close> stands for what \<open>datetime.utcfromtimestamp\<close> raises on a timestamp
  it cannot represent.
\<close>

datatype error =
    ValueError string
  | IndexError
  | TimestampError
  | AttributeError
  | TypeError

text \<open>An exception raised by \<open>r\<close> ends the evaluation; otherwise it goes on with the value.\<close>

definition bind_err :: "error + 'a \<Rightarrow> ('a \<Rightarrow> error + 'b) \<Rightarrow> error + 'b" where
  "bind_err r f = (case r of Inl e \<Rightarrow> Inl e | Inr x \<Rightarrow> f x)"

text \<open>\<open>s.startswith(p)\<close>.\<close>

definition startswith :: "string \<Rightarrow> string \<Rightarrow> bool" where
  "startswith s p = prefix p s"

text \<open>\<open>xs[i]\<close> for a literal index \<open>i \<ge> 0\<close>: out of range raises \<open>IndexError\<close>.\<close>

definition getitem :: "'a list \<Rightarrow> nat \<Rightarrow> error + 'a" where
  "getitem xs i = (if i < length xs then Inr (xs ! i) else Inl IndexError)"

text \<open>
  \<open>s.split(sep)\<close> for a separator: the occurrences of \<open>sep\<close> are found from the left and
  do not overlap; the result always has at least one piece. \<open>cur\<close> is the piece being
  read. (Python raises on an empty separator; the module only splits on the literals
  \<open>pub\<close>, \<open>uid:\<close> and \<open>:\<close>, and an empty separator here never matches.)
\<close>

fun split_from :: "string \<Rightarrow> string \<Rightarrow> string \<Rightarrow> string list" where
  "split_from sep cur [] = [cur]"
| "split_from sep cur (c # cs) =
     (if sep \<noteq> [] \<and> prefix sep (c # cs)
      then cur # split_from sep [] (drop (length sep) (c # cs))
      else split_from sep (cur @ [c]) cs)"

definition split :: "string \<Rightarrow> string \<Rightarrow> string list" where
  "split s sep = split_from sep [] s"

text \<open>\<open>sep.join(xs)\<close>.\<close>

fun join :: "string \<Rightarrow> string list \<Rightarrow> string" where
  "join sep [] = []"
| "join sep [x] = x"
| "join sep (x # y # ys) = x @ sep @ join sep (y # ys)"

section \<open>HKP.retrieve: validation and normalisation of the key id\<close>

text \<open>
  Lines 160 to 168 of \<open>HKP.retrieve\<close>: the key id is refused when it is \<open>None\<close> or its
  length is not one of the eight listed; otherwise it gets the prefix \<open>0x\<close> unless it
  has it already. The result is the value of \<open>params['search']\<close>.
\<close>

definition retrieve_key_id :: "string option \<Rightarrow> error + string" where
  "retrieve_key_id key_id =
     (case key_id of
        None \<Rightarrow> Inl (ValueError ''no or invalid key id'')
      | Some k \<Rightarrow>
          if length k \<notin> set [8, 10, 16, 20, 32, 34, 40, 42]
          then Inl (ValueError ''no or invalid key id'')
          else if \<not> startswith k ''0x'' then Inr (''0x'' @ k) else Inr k)"

section \<open>HKP._parse_options: the option encoder\<close>

text \<open>
  The source collects the options in a Python \<open>set\<close>. A set of strings is modelled as
  the list of its elements without repetition, in the order in which they were added.
  The order in which Python iterates over a set of strings depends on the string hashes,
  which the interpreter randomises per process; it is the parameter \<open>it\<close> of the
  encoder, a function from the set to the sequence in which its elements come out.
  Whatever the hashes are, that sequence has each element of the set exactly once.
\<close>

definition set_add :: "string list \<Rightarrow> string \<Rightarrow> string list" where
  "set_add ops x = (if x \<in> set ops then ops else ops @ [x])"

definition iteration_order :: "(string list \<Rightarrow> string list) \<Rightarrow> bool" where
  "iteration_order it = (\<forall>ops. mset (it ops) = mset ops)"

text \<open>
  The loop \<open>for option in options\<close>. An element \<open>None\<close> is not equal to \<open>'nm'\<close> and has
  no \<open>startswith\<close>: \<open>AttributeError\<close>.
\<close>

fun add_options :: "string list \<Rightarrow> string option list \<Rightarrow> error + string list" where
  "add_options ops [] = Inr ops"
| "add_options ops (option # options) =
     (case option of
        None \<Rightarrow> Inl AttributeError
      | Some opt \<Rightarrow>
          if opt = ''nm'' \<or> startswith opt ''x-''
          then add_options (set_add ops opt) options
          else add_options ops options)"

text \<open>
  The set \<open>ops\<close> at line 145. \<open>options\<close> is \<open>None\<close> or a tuple whose elements are strings
  or \<open>None\<close> (the default is the tuple \<open>(None,)\<close>); \<open>options[0]\<close> on the empty tuple
  raises \<open>IndexError\<close>.
\<close>

definition parse_options_ops :: "string option list option \<Rightarrow> error + string list" where
  "parse_options_ops options =
     (case options of
        None \<Rightarrow> Inr (set_add [] ''mr'')
      | Some opts \<Rightarrow>
          (case getitem opts 0 of
             Inl e \<Rightarrow> Inl e
           | Inr first \<Rightarrow>
               if first \<noteq> None then add_options (set_add [] ''mr'') opts
               else Inr (set_add [] ''mr'')))"

definition parse_options ::
  "(string list \<Rightarrow> string list) \<Rightarrow> string option list option \<Rightarrow> error + string" where
  "parse_options it options =
     (case parse_options_ops options of
        Inl e \<Rightarrow> Inl e
      | Inr ops \<Rightarrow> Inr (join '','' (it ops)))"

section \<open>Request parameters\<close>

text \<open>
  A \<open>params\<close> dictionary is an association list in insertion order. \<open>d[k] = v\<close>
  replaces the value of a key that is present, in place, and appends a new key.
\<close>

type_synonym params = "(string \<times> string) list"

fun dict_set :: "params \<Rightarrow> string \<Rightarrow> string \<Rightarrow> params" where
  "dict_set [] k v = [(k, v)]"
| "dict_set ((k', v') # d) k v =
     (if k' = k then (k', v) # d else (k', v') # dict_set d k v)"

text \<open>
  The loop \<open>for var in other_variables\<close> of \<open>HKP.search\<close>. An element is a tuple of
  strings or \<open>None\<close>; subscripting \<open>None\<close> raises \<open>TypeError\<close>, and \<open>var[0]\<close>, \<open>var[1]\<close>
  raise \<open>IndexError\<close> on a tuple that is too short.
\<close>

fun add_variables :: "params \<Rightarrow> string list option list \<Rightarrow> error + params" where
  "add_variables params [] = Inr params"
| "add_variables params (var # vars) =
     (case var of
        None \<Rightarrow> Inl TypeError
      | Some t \<Rightarrow>
          (case getitem t 0 of
             Inl e \<Rightarrow> Inl e
           | Inr name \<Rightarrow>
               if startswith name ''x-''
               then (case getitem t 1 of
                       Inl e \<Rightarrow> Inl e
                     | Inr v \<Rightarrow> add_variables (dict_set params name v) vars)
               else add_variables params vars))"

text \<open>
  The dictionary display at lines 230 to 235 of \<open>HKP.search\<close>, once the options are
  encoded: an \<open>exact\<close> other than \<open>on\<close> and \<open>off\<close> becomes \<open>off\<close>.
\<close>

definition search_dict :: "string \<Rightarrow> string \<Rightarrow> string \<Rightarrow> string \<Rightarrow> params" where
  "search_dict query operation opts exact =
     [(''search'', query), (''op'', operation), (''options'', opts),
      (''exact'', if exact \<in> set [''on'', ''off''] then exact else ''off'')]"

text \<open>
  Lines 227 to 240 of \<open>HKP.search\<close>: the check of the operation, the dictionary
  \<open>params\<close> and the extra variables. What follows in the source formats the URL from
  \<open>params\<close> and contacts the server.
\<close>

definition search_params ::
  "(string list \<Rightarrow> string list) \<Rightarrow> string \<Rightarrow> string \<Rightarrow> string \<Rightarrow> string option list option
     \<Rightarrow> string list option list \<Rightarrow> error + params" where
  "search_params it query operation exact options other_variables =
     (if operation \<noteq> ''index'' \<and> \<not> startswith operation ''x-''
      then Inl (ValueError ''operation not allowed'')
      else
        bind_err (parse_options it options) (\<lambda>opts.
        bind_err (getitem other_variables 0) (\<lambda>first.
          if first \<noteq> None
          then add_variables (search_dict query operation opts exact) other_variables
          else Inr (search_dict query operation opts exact))))"

text \<open>Lines 263 to 269 of \<open>HKP.submit\<close>: the check of the keys and the dictionary \<open>params\<close>.\<close>

definition submit_params ::
  "(string list \<Rightarrow> string list) \<Rightarrow> string option \<Rightarrow> string option list option \<Rightarrow> error + params" where
  "submit_params it keys options =
     (case keys of
        None \<Rightarrow> Inl (ValueError ''no key(s) given'')
      | Some k \<Rightarrow>
          (case parse_options it options of
             Inl e \<Rightarrow> Inl e
           | Inr opts \<Rightarrow> Inr [(''keytext'', k), (''options'', opts)]))"

section \<open>HKP.lookup_pubkey_algorithm\<close>

definition public_key_algorithms :: "(int \<times> string) list" where
  "public_key_algorithms =
     [(1, ''RSA Encrypt or Sign''),
      (2, ''RSA Encrypt-Only''),
      (3, ''RSA Sign-Only''),
      (16, ''ElGamal Encrypt-Only''),
      (17, ''DSA''),
      (18, ''Elliptic Curve''),
      (19, ''ECDSA''),
      (20, ''Formerly ElGamal Encrypt or Sign''),
      (21, ''Diffie-Hellman'')]"

definition lookup_pubkey_algorithm :: "int \<Rightarrow> string" where
  "lookup_pubkey_algorithm alg =
     (if 100 \<le> alg \<and> alg \<le> 110 then ''Private/Experimental algorithm''
      else (case map_of public_key_algorithms alg of
              Some name \<Rightarrow> name
            | None \<Rightarrow> ''Unknown''))"

section \<open>The library calls of HKP._parse_index\<close>

text \<open>
  \<open>int(s)\<close> for a string, base ten: white space around the literal is ignored, then
  come an optional sign and decimal digits, with single underscores allowed between
  digits. Anything else raises \<open>ValueError\<close>, and so does a literal of more than 4300
  digits (the interpreter's default limit). Characters are those below 256, where the
  white space is the set listed and the decimal digits are \<open>0\<close> to \<open>9\<close>.
\<close>

definition is_space :: "char \<Rightarrow> bool" where
  "is_space c =
     ((of_char c :: nat) \<in> set [9, 10, 11, 12, 13, 28, 29, 30, 31, 32, 133, 160])"

definition strip :: "string \<Rightarrow> string" where
  "strip s = rev (dropWhile is_space (rev (dropWhile is_space s)))"

definition is_digit :: "char \<Rightarrow> bool" where
  "is_digit c = (c \<in> set ''0123456789'')"

definition digit_value :: "char \<Rightarrow> int" where
  "digit_value c = of_char c - 48"

fun digits_from :: "int \<Rightarrow> string \<Rightarrow> int option" where
  "digits_from acc [] = Some acc"
| "digits_from acc (c # cs) =
     (if is_digit c then digits_from (10 * acc + digit_value c) cs
      else if c = CHR ''_'' then
        (case cs of
           [] \<Rightarrow> None
         | d # ds \<Rightarrow>
             if is_digit d then digits_from (10 * acc + digit_value d) ds else None)
      else None)"

definition unsigned_literal :: "string \<Rightarrow> error + int" where
  "unsigned_literal s =
     (case s of
        [] \<Rightarrow> Inl (ValueError ''invalid literal for int() with base 10'')
      | c # cs \<Rightarrow>
          if \<not> is_digit c then Inl (ValueError ''invalid literal for int() with base 10'')
          else
            (case digits_from 0 (takeWhile (\<lambda>x. is_digit x \<or> x = CHR ''_'') s) of
               None \<Rightarrow> Inl (ValueError ''invalid literal for int() with base 10'')
             | Some n \<Rightarrow>
                 if 4300 < length (filter is_digit (takeWhile (\<lambda>x. is_digit x \<or> x = CHR ''_'') s))
                 then Inl (ValueError ''Exceeds the limit (4300 digits) for integer string conversion'')
                 else if dropWhile (\<lambda>x. is_digit x \<or> x = CHR ''_'') s \<noteq> []
                 then Inl (ValueError ''invalid literal for int() with base 10'')
                 else Inr n))"

definition py_int :: "string \<Rightarrow> error + int" where
  "py_int s =
     (case strip s of
        [] \<Rightarrow> Inl (ValueError ''invalid literal for int() with base 10'')
      | c # cs \<Rightarrow>
          if c = CHR ''-'' then
            (case unsigned_literal cs of Inl e \<Rightarrow> Inl e | Inr n \<Rightarrow> Inr (- n))
          else if c = CHR ''+'' then
            (case unsigned_literal cs of Inl e \<Rightarrow> Inl e | Inr n \<Rightarrow> Inr n)
          else
            (case unsigned_literal (c # cs) of Inl e \<Rightarrow> Inl e | Inr n \<Rightarrow> Inr n))"

text \<open>
  A \<open>datetime\<close> made by \<open>datetime.utcfromtimestamp\<close> is the instant that many seconds
  after 1970-01-01 00:00:00 UTC. The type holds the years 1 to 9999; a timestamp outside
  them raises: \<open>ValueError\<close>, \<open>OverflowError\<close> or \<open>OSError\<close>, depending on its magnitude
  and on the platform, which is the one value \<open>TimestampError\<close> here.
\<close>

datatype datetime = Utc int

definition utcfromtimestamp :: "int \<Rightarrow> error + datetime" where
  "utcfromtimestamp t =
     (if t < - 62135596800 \<or> 253402300799 < t then Inl TimestampError
      else Inr (Utc t))"

section \<open>HKP._parse_index: the parser of the machine readable index\<close>

text \<open>
  The dictionaries of a key. Both the primary key and a user id have the entries
  \<open>creation\<close>, \<open>expiration\<close>, \<open>revoked\<close>, \<open>disabled\<close> and \<open>expired\<close>. The entry
  \<open>primary_key\<close> of a key starts as the empty dictionary, which is \<open>None\<close> here.
\<close>

record dated =
  creation :: "datetime option"
  expiration :: "datetime option"
  revoked :: bool
  disabled :: bool
  expired :: bool

record primary_key_dict = dated +
  key_id :: string
  algorithm_id :: int
  algorithm :: string
  key_length :: int

record uid_dict = dated +
  user_id :: string

record key_dict =
  primary_key :: "primary_key_dict option"
  user_ids :: "uid_dict list"

definition convert_date_if_set :: "string \<Rightarrow> error + datetime option" where
  "convert_date_if_set date =
     (if date \<noteq> [] then
        bind_err (py_int date) (\<lambda>n. bind_err (utcfromtimestamp n) (\<lambda>d. Inr (Some d)))
      else Inr None)"

text \<open>
  The dictionary display of the branch \<open>len(value) > 4\<close>, its entries evaluated in the
  order of the source (so \<open>int(value[2])\<close> twice).
\<close>

definition primary_key_of :: "string list \<Rightarrow> error + primary_key_dict" where
  "primary_key_of value =
     bind_err (getitem value 1) (\<lambda>kid.
     bind_err (getitem value 2) (\<lambda>a. bind_err (py_int a) (\<lambda>aid.
     bind_err (getitem value 2) (\<lambda>a'. bind_err (py_int a') (\<lambda>alg.
     bind_err (getitem value 3) (\<lambda>l. bind_err (py_int l) (\<lambda>len.
     bind_err (getitem value 4) (\<lambda>c. bind_err (convert_date_if_set c) (\<lambda>cre.
     bind_err (getitem value 5) (\<lambda>x. bind_err (convert_date_if_set x) (\<lambda>exp.
     bind_err (getitem value 6) (\<lambda>flags.
       Inr \<lparr>creation = cre, expiration = exp,
            revoked = CHR ''r'' \<in> set flags,
            disabled = CHR ''d'' \<in> set flags,
            expired = CHR ''e'' \<in> set flags,
            key_id = kid, algorithm_id = aid,
            algorithm = lookup_pubkey_algorithm alg, key_length = len\<rparr>))))))))))))"

text \<open>The dictionary display of the other branch.\<close>

definition uid_of :: "string list \<Rightarrow> error + uid_dict" where
  "uid_of value =
     bind_err (getitem value 0) (\<lambda>uid.
     bind_err (getitem value 1) (\<lambda>c. bind_err (convert_date_if_set c) (\<lambda>cre.
     bind_err (getitem value 2) (\<lambda>x. bind_err (convert_date_if_set x) (\<lambda>exp.
     bind_err (getitem value 3) (\<lambda>flags.
       Inr \<lparr>creation = cre, expiration = exp,
            revoked = CHR ''r'' \<in> set flags,
            disabled = CHR ''d'' \<in> set flags,
            expired = CHR ''e'' \<in> set flags,
            user_id = uid\<rparr>))))))"

text \<open>The loop \<open>for value in key_str\<close> over the pieces between \<open>uid:\<close>.\<close>

fun parse_values :: "key_dict \<Rightarrow> string list \<Rightarrow> error + key_dict" where
  "parse_values kd [] = Inr kd"
| "parse_values kd (v # vs) =
     (if 4 < length (split v '':'')
      then bind_err (primary_key_of (split v '':''))
             (\<lambda>pk. parse_values (kd\<lparr>primary_key := Some pk\<rparr>) vs)
      else bind_err (uid_of (split v '':''))
             (\<lambda>u. parse_values (kd\<lparr>user_ids := user_ids kd @ [u]\<rparr>) vs))"

text \<open>The loop \<open>for key_str in keys_split\<close> over the pieces between \<open>pub\<close>.\<close>

fun parse_keys :: "key_dict list \<Rightarrow> string list \<Rightarrow> error + key_dict list" where
  "parse_keys keys [] = Inr keys"
| "parse_keys keys (key_str # rest) =
     (if startswith key_str ''info'' then parse_keys keys rest
      else bind_err (parse_values \<lparr>primary_key = None, user_ids = []\<rparr> (split key_str ''uid:''))
             (\<lambda>kd. parse_keys (keys @ [kd]) rest))"

text \<open>\<open>s.replace(c, '')\<close> for a single character \<open>c\<close>.\<close>

definition remove_char :: "char \<Rightarrow> string \<Rightarrow> string" where
  "remove_char c s = filter (\<lambda>x. x \<noteq> c) s"

text \<open>Line 76: the line feeds are removed, then the carriage returns.\<close>

definition strip_line_breaks :: "string \<Rightarrow> string" where
  "strip_line_breaks s = remove_char (CHR 0x0D) (remove_char (CHR 0x0A) s)"

definition parse_index :: "string \<Rightarrow> error + key_dict list" where
  "parse_index mr_keyserver_answer =
     parse_keys [] (split (strip_line_breaks mr_keyserver_answer) ''pub'')"

section \<open>Predicates of the statements\<close>



text \<open>The options that the encoder keeps.\<close>

definition retained :: "string \<Rightarrow> bool" where
  "retained t = (t = ''nm'' \<or> startswith t ''x-'')"

text \<open>
  Extra variables given as pairs of strings, as the tuple of two-element tuples that
  \<open>HKP.search\<close> receives; and what the loop does with one pair.
\<close>

definition pairs_as_tuples :: "(string \<times> string) list \<Rightarrow> string list option list" where
  "pairs_as_tuples pairs = map (\<lambda>p. Some [fst p, snd p]) pairs"

definition merge_pair :: "params \<Rightarrow> string \<times> string \<Rightarrow> params" where
  "merge_pair d p = (if startswith (fst p) ''x-'' then dict_set d (fst p) (snd p) else d)"







section \<open>Key id normalisation\<close>

lemma retrieve_key_id_prefixed:
  "retrieve_key_id (Some x) = Inr y \<Longrightarrow> startswith x ''0x'' \<Longrightarrow> y = x"
  by (auto simp: retrieve_key_id_def split: if_splits)

lemma retrieve_key_id_unprefixed:
  "retrieve_key_id (Some x) = Inr y \<Longrightarrow> \<not> startswith x ''0x'' \<Longrightarrow> y = ''0x'' @ x"
  by (auto simp: retrieve_key_id_def split: if_splits)

text \<open>
  C1 (as stated, refuted). An id of ten characters without the prefix is accepted, since
  only the length of the input as given is checked; its normal form has twelve characters
  and is refused.
\<close>

theorem normalize_not_idempotent_counterexample:
  "retrieve_key_id (Some ''0123456789'') = Inr ''0x0123456789''
   \<and> retrieve_key_id (Some ''0x0123456789'') = Inl (ValueError ''no or invalid key id'')"
  by (simp add: retrieve_key_id_def startswith_def)

text \<open>
  C1 (amended). For every accepted key id that already begins with \<open>0x\<close>, or that has
  8, 32 or 40 characters, normalising the normalised id returns it unchanged.
\<close>

theorem normalize_idempotent:
  assumes "retrieve_key_id (Some x) = Inr y"
    and "startswith x ''0x'' \<or> length x = 8 \<or> length x = 32 \<or> length x = 40"
  shows "retrieve_key_id (Some y) = Inr y"
proof (cases "startswith x ''0x''")
  case True
  from assms(1) True have "y = x" by (rule retrieve_key_id_prefixed)
  with assms(1) show ?thesis by simp
next
  case False
  from assms(1) False have y: "y = ''0x'' @ x" by (rule retrieve_key_id_unprefixed)
  from False assms(2) have "length x = 8 \<or> length x = 32 \<or> length x = 40" by simp
  then show ?thesis
    unfolding y by (auto simp: retrieve_key_id_def startswith_def)
qed

theorem normalize_idempotent_witness:
  "retrieve_key_id (Some ''2D230C5F'') = Inr ''0x2D230C5F''
   \<and> retrieve_key_id (Some ''0x2D230C5F'') = Inr ''0x2D230C5F''"
proof -
  have a: "retrieve_key_id (Some ''2D230C5F'') = Inr ''0x2D230C5F''"
    by (simp add: retrieve_key_id_def startswith_def)
  have b: "startswith ''2D230C5F'' ''0x'' \<or> length ''2D230C5F'' = 8
           \<or> length ''2D230C5F'' = 32 \<or> length ''2D230C5F'' = 40"
    by simp
  from a normalize_idempotent [OF a b] show ?thesis by simp
qed

section \<open>The index parser on concrete bodies\<close>

text \<open>
  C2. The body \<open>info:1:1\<close> followed by the one block
  \<open>pub:AABBCCDD:17:2048:1136214245::\<close> (as two lines, or written one after the other)
  parses to exactly one key with no user ids, whose primary key has key id
  \<open>AABBCCDD\<close>, algorithm id 17 named \<open>DSA\<close>, key length 2048, the creation instant
  of the timestamp 1136214245, no expiration and all three flags false.
\<close>

theorem parse_index_single_pub:
  "parse_index (''info:1:1'' @ [CHR 0x0A] @ ''pub:AABBCCDD:17:2048:1136214245::'' @ [CHR 0x0A])
     = Inr [\<lparr>primary_key = Some
               \<lparr>creation = Some (Utc 1136214245), expiration = None, revoked = False,
                disabled = False, expired = False, key_id = ''AABBCCDD'',
                algorithm_id = 17, algorithm = ''DSA'', key_length = 2048\<rparr>,
             user_ids = []\<rparr>]
   \<and> parse_index ''info:1:1pub:AABBCCDD:17:2048:1136214245::''
     = Inr [\<lparr>primary_key = Some
               \<lparr>creation = Some (Utc 1136214245), expiration = None, revoked = False,
                disabled = False, expired = False, key_id = ''AABBCCDD'',
                algorithm_id = 17, algorithm = ''DSA'', key_length = 2048\<rparr>,
             user_ids = []\<rparr>]"
  by code_simp

text \<open>
  C5. The block \<open>uid:Jane Doe <jane@example.org>:0::e\<close> gives a user id with that
  name, expired, not revoked, not disabled, without expiration, and created at the
  epoch (timestamp 0): both as the fields of the block alone and as the one user id of
  the key whose line precedes it.
\<close>

theorem parse_index_uid_block:
  "uid_of (split ''Jane Doe <jane@example.org>:0::e'' '':'')
     = Inr \<lparr>creation = Some (Utc 0), expiration = None, revoked = False,
             disabled = False, expired = True, user_id = ''Jane Doe <jane@example.org>''\<rparr>
   \<and> parse_index (''info:1:1'' @ [CHR 0x0A] @ ''pub:AABBCCDD:17:2048:1136214245::'' @ [CHR 0x0A]
                   @ ''uid:Jane Doe <jane@example.org>:0::e'' @ [CHR 0x0A])
     = Inr [\<lparr>primary_key = Some
               \<lparr>creation = Some (Utc 1136214245), expiration = None, revoked = False,
                disabled = False, expired = False, key_id = ''AABBCCDD'',
                algorithm_id = 17, algorithm = ''DSA'', key_length = 2048\<rparr>,
             user_ids =
               [\<lparr>creation = Some (Utc 0), expiration = None, revoked = False,
                 disabled = False, expired = True,
                 user_id = ''Jane Doe <jane@example.org>''\<rparr>]\<rparr>]"
  by code_simp

section \<open>An index without keys\<close>

lemma split_from_no_sep:
  "\<not> sublist sep s \<Longrightarrow> split_from sep cur s = [cur @ s]"
proof (induction s arbitrary: cur)
  case Nil
  then show ?case by simp
next
  case (Cons c cs)
  from Cons.prems have np: "\<not> prefix sep (c # cs)" and ns: "\<not> sublist sep cs"
    by (auto simp: sublist_Cons_right)
  from Cons.IH[OF ns, of "cur @ [c]"] np show ?case by simp
qed

lemma split_no_sep: "\<not> sublist sep s \<Longrightarrow> split s sep = [s]"
  by (simp add: split_def split_from_no_sep)

text \<open>
  C3 (as stated, refuted). The empty body has no \<open>pub\<close> segment, yet it is not
  skipped: its only piece is the empty string, which is read as a user id block with
  one field, and \<open>value[1]\<close> raises \<open>IndexError\<close>.
\<close>

theorem parse_index_empty_body_counterexample:
  "parse_index '''' = Inl IndexError"
  by code_simp

text \<open>
  C3 (amended). For every body that, once its line breaks are removed, begins with
  \<open>info\<close> and does not contain \<open>pub\<close>, the parser returns the empty sequence.
\<close>

theorem parse_index_info_only:
  assumes "startswith (strip_line_breaks body) ''info''"
    and "\<not> sublist ''pub'' (strip_line_breaks body)"
  shows "parse_index body = Inr []"
  using assms by (simp add: parse_index_def split_no_sep)

theorem parse_index_info_only_witness:
  "startswith (strip_line_breaks (''info:1:0'' @ [CHR 0x0A])) ''info''
   \<and> \<not> sublist ''pub'' (strip_line_breaks (''info:1:0'' @ [CHR 0x0A]))
   \<and> parse_index (''info:1:0'' @ [CHR 0x0A]) = Inr []"
proof -
  have a: "startswith (strip_line_breaks (''info:1:0'' @ [CHR 0x0A])) ''info''"
    by (simp add: strip_line_breaks_def remove_char_def startswith_def)
  have b: "\<not> sublist ''pub'' (strip_line_breaks (''info:1:0'' @ [CHR 0x0A]))"
    by (simp add: strip_line_breaks_def remove_char_def sublist_Cons_right)
  from a b parse_index_info_only [OF a b] show ?thesis by simp
qed

section \<open>Blocks that are short of fields\<close>
























section \<open>The option encoder\<close>

lemma set_add_distinct: "distinct ops \<Longrightarrow> distinct (set_add ops x)"
  by (simp add: set_add_def)

lemma set_add_set: "set (set_add ops x) = insert x (set ops)"
  by (auto simp: set_add_def)

lemma add_options_strings:
  "distinct ops \<Longrightarrow>
   \<exists>ops'. add_options ops (map Some xs) = Inr ops' \<and> distinct ops'
     \<and> set ops' = set ops \<union> set (filter retained xs)"
proof (induction xs arbitrary: ops)
  case Nil
  then show ?case by simp
next
  case (Cons x xs)
  show ?case
  proof (cases "retained x")
    case True
    from Cons.prems have "distinct (set_add ops x)" by (rule set_add_distinct)
    from Cons.IH[OF this] obtain ops' where
      o: "add_options (set_add ops x) (map Some xs) = Inr ops'" "distinct ops'"
         "set ops' = set (set_add ops x) \<union> set (filter retained xs)"
      by blast
    from True o(1) have "add_options ops (map Some (x # xs)) = Inr ops'"
      by (simp add: retained_def)
    moreover from True o(3)
    have "set ops' = set ops \<union> set (filter retained (x # xs))"
      by (simp add: set_add_set)
    ultimately show ?thesis using o(2) by blast
  next
    case False
    from Cons.IH[OF Cons.prems] obtain ops' where
      o: "add_options ops (map Some xs) = Inr ops'" "distinct ops'"
         "set ops' = set ops \<union> set (filter retained xs)"
      by blast
    from False o(1) have "add_options ops (map Some (x # xs)) = Inr ops'"
      by (simp add: retained_def)
    moreover from False o(3)
    have "set ops' = set ops \<union> set (filter retained (x # xs))"
      by simp
    ultimately show ?thesis using o(2) by blast
  qed
qed

lemma parse_options_ops_strings:
  assumes "xs \<noteq> []"
  shows "\<exists>ops. parse_options_ops (Some (map Some xs)) = Inr ops \<and> distinct ops
     \<and> set ops = insert ''mr'' (set (filter retained xs))"
proof -
  have d: "distinct (set_add [] ''mr'')" by (simp add: set_add_def)
  from assms obtain y ys where xs: "xs = y # ys" by (cases xs) auto
  have e: "parse_options_ops (Some (map Some xs)) = add_options (set_add [] ''mr'') (map Some xs)"
    by (simp add: parse_options_ops_def getitem_def xs del: add_options.simps)
  from add_options_strings[OF d, of xs] obtain ops' where
    o: "add_options (set_add [] ''mr'') (map Some xs) = Inr ops'" "distinct ops'"
       "set ops' = set (set_add [] ''mr'') \<union> set (filter retained xs)"
    by blast
  from o(3) have "set ops' = insert ''mr'' (set (filter retained xs))"
    by (simp add: set_add_set)
  with e o(1) o(2) show ?thesis by simp
qed

lemma iteration_order_distinct:
  assumes "iteration_order it"
  shows "distinct (it ops) = distinct ops"
proof -
  from assms have "mset (it ops) = mset ops" unfolding iteration_order_def by (rule spec)
  then show ?thesis by (rule mset_eq_imp_distinct_iff)
qed

lemma iteration_order_set:
  assumes "iteration_order it"
  shows "set (it ops) = set ops"
proof -
  from assms have "mset (it ops) = mset ops" unfolding iteration_order_def by (rule spec)
  then show ?thesis by (rule mset_eq_setD)
qed

lemma iteration_order_single:
  assumes "iteration_order it"
  shows "it [x] = [x]"
proof -
  from assms have "mset (it [x]) = mset [x]" unfolding iteration_order_def by (rule spec)
  then show ?thesis by simp
qed

lemma parse_options_foo_bar:
  assumes "iteration_order it"
  shows "parse_options it (Some [Some ''foo'', Some ''bar'']) = Inr ''mr''"
proof -
  have "parse_options_ops (Some [Some ''foo'', Some ''bar'']) = Inr [''mr'']"
    by (simp add: parse_options_ops_def getitem_def set_add_def startswith_def)
  then show ?thesis
    using iteration_order_single[OF assms, of "''mr''"] by (simp add: parse_options_def)
qed

text \<open>
  C6 (as stated, refuted). The empty sequence of options is a sequence of option
  strings, and on it the encoder raises: \<open>options[0]\<close> is read before the loop, whatever
  the iteration order of the set.
\<close>

theorem parse_options_empty_counterexample:
  "parse_options rev (Some (map Some [])) = Inl IndexError"
  by (simp add: parse_options_def parse_options_ops_def getitem_def)

text \<open>
  C6 (amended). For every sequence of option strings that is not empty, the encoded
  string is the comma-joined list of distinct tokens made of \<open>mr\<close> and exactly the
  supplied tokens that are \<open>nm\<close> or begin with \<open>x-\<close>, nothing being raised for the
  others; in particular \<open>('foo', 'bar')\<close> encodes to \<open>mr\<close>.
\<close>

theorem parse_options_tokens:
  assumes "iteration_order it" and "xs \<noteq> []"
  shows "(\<exists>ys. parse_options it (Some (map Some xs)) = Inr (join '','' ys) \<and> distinct ys
            \<and> set ys = insert ''mr'' (set (filter retained xs)))
         \<and> parse_options it (Some [Some ''foo'', Some ''bar'']) = Inr ''mr''"
proof -
  from parse_options_ops_strings[OF assms(2)] obtain ops where
    ops: "parse_options_ops (Some (map Some xs)) = Inr ops" "distinct ops"
      "set ops = insert ''mr'' (set (filter retained xs))"
    by blast
  have "parse_options it (Some (map Some xs)) = Inr (join '','' (it ops))"
    by (simp add: parse_options_def ops(1))
  moreover have "distinct (it ops)"
    using ops(2) by (simp add: iteration_order_distinct[OF assms(1)])
  moreover have "set (it ops) = insert ''mr'' (set (filter retained xs))"
    using ops(3) by (simp add: iteration_order_set[OF assms(1)])
  ultimately have "\<exists>ys. parse_options it (Some (map Some xs)) = Inr (join '','' ys) \<and> distinct ys
            \<and> set ys = insert ''mr'' (set (filter retained xs))"
    by blast
  with parse_options_foo_bar[OF assms(1)] show ?thesis by simp
qed

theorem parse_options_tokens_witness:
  "iteration_order (\<lambda>ops. ops)
   \<and> (\<exists>ys. parse_options (\<lambda>ops. ops) (Some (map Some [''nm'', ''x-d'', ''foo'', ''nm'']))
              = Inr (join '','' ys) \<and> distinct ys
            \<and> set ys = insert ''mr'' (set (filter retained [''nm'', ''x-d'', ''foo'', ''nm''])))
   \<and> parse_options (\<lambda>ops. ops) (Some (map Some [''nm'', ''x-d'', ''foo'', ''nm''])) = Inr ''mr,nm,x-d''
   \<and> parse_options (\<lambda>ops. ops) (Some [Some ''foo'', Some ''bar'']) = Inr ''mr''"
proof -
  have a: "iteration_order (\<lambda>ops. ops)" by (simp add: iteration_order_def)
  have b: "[''nm'', ''x-d'', ''foo'', ''nm''] \<noteq> []" by simp
  have c: "parse_options (\<lambda>ops. ops) (Some (map Some [''nm'', ''x-d'', ''foo'', ''nm''])) = Inr ''mr,nm,x-d''"
    by code_simp
  from a c parse_options_tokens [OF a b] show ?thesis by simp
qed

text \<open>
  C7 (as stated, refuted). On the empty sequence the encoder does not return a string:
  \<open>options[0]\<close> raises \<open>IndexError\<close>.
\<close>

theorem parse_options_not_total_counterexample:
  "parse_options (\<lambda>ops. ops) (Some []) = Inl IndexError"
  by (simp add: parse_options_def parse_options_ops_def getitem_def)

text \<open>
  C7 (amended). The encoder returns a string, without raising, for \<open>None\<close>, for the
  default \<open>(None,)\<close> and for every sequence of option strings that is not empty.
\<close>

theorem parse_options_total:
  assumes "options = None \<or> options = Some [None]
           \<or> (\<exists>xs. xs \<noteq> [] \<and> options = Some (map Some xs))"
  shows "\<exists>s. parse_options it options = Inr s"
proof -
  from assms consider "options = None" | "options = Some [None]"
    | xs where "xs \<noteq> []" "options = Some (map Some xs)" by blast
  then show ?thesis
  proof cases
    case 1
    then show ?thesis by (simp add: parse_options_def parse_options_ops_def)
  next
    case 2
    then show ?thesis by (simp add: parse_options_def parse_options_ops_def getitem_def)
  next
    case 3
    from parse_options_ops_strings[OF 3(1)] obtain ops where
      "parse_options_ops (Some (map Some xs)) = Inr ops" by blast
    with 3(2) show ?thesis by (simp add: parse_options_def)
  qed
qed

theorem parse_options_total_witness:
  "\<exists>s. parse_options rev (Some (map Some [''x-test''])) = Inr s"
proof -
  have "Some (map Some [''x-test'']) = None \<or> Some (map Some [''x-test'']) = Some [None]
           \<or> (\<exists>xs. xs \<noteq> [] \<and> Some (map Some [''x-test'']) = Some (map Some xs))"
    by blast
  from parse_options_total [OF this] show ?thesis .
qed

section \<open>HKP.search and HKP.submit: the checks\<close>

lemma bind_err_Inl:
  "bind_err r f = Inl e \<Longrightarrow> r = Inl e \<or> (\<exists>x. r = Inr x \<and> f x = Inl e)"
  by (cases r) (simp_all add: bind_err_def)

lemma parse_options_returns:
  assumes "options = None \<or> options = Some [None]
           \<or> (\<exists>xs. xs \<noteq> [] \<and> options = Some (map Some xs))"
  shows "\<exists>s. parse_options it options = Inr s"
proof -
  from assms consider "options = None" | "options = Some [None]"
    | xs where "xs \<noteq> []" "options = Some (map Some xs)" by blast
  then show ?thesis
  proof cases
    case 1
    then show ?thesis by (simp add: parse_options_def parse_options_ops_def)
  next
    case 2
    then show ?thesis by (simp add: parse_options_def parse_options_ops_def getitem_def)
  next
    case 3
    from parse_options_ops_strings[OF 3(1)] obtain ops where
      "parse_options_ops (Some (map Some xs)) = Inr ops" by blast
    with 3(2) show ?thesis by (simp add: parse_options_def)
  qed
qed

lemma add_options_not_ValueError: "add_options ops opts \<noteq> Inl (ValueError m)"
proof (induction opts arbitrary: ops)
  case Nil
  show ?case by simp
next
  case (Cons a opts)
  show ?case by (cases a) (simp_all add: Cons.IH)
qed

lemma parse_options_ops_not_ValueError: "parse_options_ops options \<noteq> Inl (ValueError m)"
proof (cases options)
  case None
  then show ?thesis by (simp add: parse_options_ops_def)
next
  case (Some opts)
  then show ?thesis
    by (cases opts)
      (simp_all add: parse_options_ops_def getitem_def add_options_not_ValueError
        del: add_options.simps)
qed

lemma parse_options_not_ValueError: "parse_options it options \<noteq> Inl (ValueError m)"
  using parse_options_ops_not_ValueError[of options m]
  by (cases "parse_options_ops options") (simp_all add: parse_options_def)

lemma getitem_not_ValueError: "getitem xs i \<noteq> Inl (ValueError m)"
  by (simp add: getitem_def)

lemma add_variables_not_ValueError: "add_variables d vars \<noteq> Inl (ValueError m)"
proof (induction vars arbitrary: d)
  case Nil
  show ?case by simp
next
  case (Cons var vars)
  show ?case
  proof (cases var)
    case None
    then show ?thesis by simp
  next
    case (Some t)
    show ?thesis
    proof (cases "getitem t 0")
      case (Inl e)
      with getitem_not_ValueError[of t 0 m] Some show ?thesis by auto
    next
      case name: (Inr name)
      show ?thesis
      proof (cases "getitem t 1")
        case (Inl e)
        with getitem_not_ValueError[of t 1 m] Some name Cons.IH show ?thesis by auto
      next
        case (Inr v)
        with Some name Cons.IH show ?thesis by auto
      qed
    qed
  qed
qed

text \<open>
  C8. Building the search parameters raises the \<open>ValueError\<close> of a refused operation
  if and only if the operation is neither \<open>index\<close> nor begins with \<open>x-\<close>; \<open>y-bad\<close>
  is refused and no parameters are made, \<open>x-custom\<close> (with the default options and
  variables) gives parameters.
\<close>

theorem search_invalid_operation:
  "((search_params it query operation exact options other_variables
       = Inl (ValueError ''operation not allowed''))
     = (operation \<noteq> ''index'' \<and> \<not> startswith operation ''x-''))
   \<and> search_params it query ''y-bad'' exact options other_variables
       = Inl (ValueError ''operation not allowed'')
   \<and> (\<exists>p. search_params it query ''x-custom'' exact (Some [None]) [None] = Inr p)"
proof -
  have iff: "(search_params it query operation exact options other_variables
       = Inl (ValueError ''operation not allowed''))
     = (operation \<noteq> ''index'' \<and> \<not> startswith operation ''x-'')"
  proof (cases "operation \<noteq> ''index'' \<and> \<not> startswith operation ''x-''")
    case True
    then show ?thesis by (simp add: search_params_def)
  next
    case False
    have "search_params it query operation exact options other_variables
            \<noteq> Inl (ValueError ''operation not allowed'')"
    proof
      assume a: "search_params it query operation exact options other_variables
            = Inl (ValueError ''operation not allowed'')"
      from a False have "bind_err (parse_options it options) (\<lambda>opts.
          bind_err (getitem other_variables 0) (\<lambda>first.
            if first \<noteq> None
            then add_variables (search_dict query operation opts exact) other_variables
            else Inr (search_dict query operation opts exact)))
          = Inl (ValueError ''operation not allowed'')"
        by (simp add: search_params_def)
      then show False
        by (auto dest!: bind_err_Inl
            simp: parse_options_not_ValueError getitem_not_ValueError add_variables_not_ValueError
            split: if_splits)
    qed
    with False show ?thesis by simp
  qed
  have bad: "search_params it query ''y-bad'' exact options other_variables
       = Inl (ValueError ''operation not allowed'')"
    by (simp add: search_params_def startswith_def)
  have good: "\<exists>p. search_params it query ''x-custom'' exact (Some [None]) [None] = Inr p"
    by (simp add: search_params_def startswith_def parse_options_def parse_options_ops_def
        getitem_def bind_err_def)
  from iff bad good show ?thesis by simp
qed

theorem search_invalid_operation_witness:
  "search_params (\<lambda>ops. ops) ''jane'' ''get'' ''off'' (Some [None]) [None]
     = Inl (ValueError ''operation not allowed'')
   \<and> search_params (\<lambda>ops. ops) ''jane'' ''index'' ''off'' (Some [None]) [None]
     \<noteq> Inl (ValueError ''operation not allowed'')"
proof -
  have a: "''get'' \<noteq> ''index'' \<and> \<not> startswith ''get'' ''x-''"
    by (simp add: startswith_def)
  have b: "\<not> (''index'' \<noteq> ''index'' \<and> \<not> startswith ''index'' ''x-'')"
    by simp
  from a b
    search_invalid_operation [of "\<lambda>ops. ops" "''jane''" "''get''" "''off''" "Some [None]" "[None]"]
    search_invalid_operation [of "\<lambda>ops. ops" "''jane''" "''index''" "''off''" "Some [None]" "[None]"]
  show ?thesis by blast
qed

text \<open>
  C9 (as stated, refuted). With keys that are present and the empty tuple of options,
  no parameters are made: the encoder reads \<open>options[0]\<close> and raises \<open>IndexError\<close>.
\<close>

theorem submit_empty_options_counterexample:
  "submit_params (\<lambda>ops. ops) (Some ''key'') (Some []) = Inl IndexError"
  by (simp add: submit_params_def parse_options_def parse_options_ops_def getitem_def)

text \<open>
  C9 (amended). Submitting raises the \<open>ValueError\<close> of missing keys if and only if the
  keys are \<open>None\<close>. For keys that are present, the empty string included, and options
  that are \<open>None\<close>, the default \<open>(None,)\<close> or a sequence of option strings that is not
  empty, the parameters are the dictionary of \<open>keytext\<close>, the keys as given, and
  \<open>options\<close>, the encoded options.
\<close>

theorem submit_no_key_material:
  "((submit_params it keys options = Inl (ValueError ''no key(s) given'')) = (keys = None))
   \<and> (options = None \<or> options = Some [None]
          \<or> (\<exists>xs. xs \<noteq> [] \<and> options = Some (map Some xs)) \<longrightarrow>
        (\<exists>opts. parse_options it options = Inr opts
           \<and> submit_params it (Some k) options = Inr [(''keytext'', k), (''options'', opts)]))"
proof -
  have iff: "(submit_params it keys options = Inl (ValueError ''no key(s) given'')) = (keys = None)"
  proof (cases keys)
    case None
    then show ?thesis by (simp add: submit_params_def)
  next
    case (Some k)
    with parse_options_not_ValueError[of it options] show ?thesis
      by (cases "parse_options it options") (simp_all add: submit_params_def)
  qed
  have present: "options = None \<or> options = Some [None]
          \<or> (\<exists>xs. xs \<noteq> [] \<and> options = Some (map Some xs)) \<longrightarrow>
        (\<exists>opts. parse_options it options = Inr opts
           \<and> submit_params it (Some k) options = Inr [(''keytext'', k), (''options'', opts)])"
  proof
    assume "options = None \<or> options = Some [None]
          \<or> (\<exists>xs. xs \<noteq> [] \<and> options = Some (map Some xs))"
    from parse_options_returns[OF this] obtain opts where "parse_options it options = Inr opts"
      by blast
    then show "\<exists>opts. parse_options it options = Inr opts
           \<and> submit_params it (Some k) options = Inr [(''keytext'', k), (''options'', opts)]"
      by (simp add: submit_params_def)
  qed
  from iff present show ?thesis by simp
qed

theorem submit_no_key_material_witness:
  "submit_params (\<lambda>ops. ops) (Some '''') (Some [None])
     = Inr [(''keytext'', ''''), (''options'', ''mr'')]
   \<and> submit_params (\<lambda>ops. ops) None (Some [None]) = Inl (ValueError ''no key(s) given'')"
proof -
  have a: "parse_options (\<lambda>ops. ops) (Some [None]) = Inr ''mr''"
    by code_simp
  have d: "Some [None] = None \<or> Some [None] = Some [None]
          \<or> (\<exists>xs. xs \<noteq> [] \<and> Some [None] = Some (map Some xs))"
    by simp
  from a d
    submit_no_key_material [of "\<lambda>ops. ops" "Some ''''" "Some [None]" "''''"]
    submit_no_key_material [of "\<lambda>ops. ops" None "Some [None]" "''''"]
  show ?thesis by auto
qed

section \<open>HKP.search: the extra variables\<close>

lemma map_of_dict_set: "map_of (dict_set d k v) = (map_of d)(k \<mapsto> v)"
  by (induction d k v rule: dict_set.induct) auto

lemma add_variables_step:
  "add_variables d (pairs_as_tuples (p # pairs))
     = add_variables (merge_pair d p) (pairs_as_tuples pairs)"
  by (simp add: pairs_as_tuples_def getitem_def merge_pair_def)

lemma add_variables_pairs:
  "add_variables d (pairs_as_tuples pairs) = Inr (foldl merge_pair d pairs)"
proof (induction pairs arbitrary: d)
  case Nil
  then show ?case by (simp add: pairs_as_tuples_def)
next
  case (Cons p pairs)
  show ?case unfolding add_variables_step Cons.IH by simp
qed

lemma map_of_merge_pair:
  "map_of (merge_pair d p) name =
     (if startswith (fst p) ''x-'' \<and> name = fst p then Some (snd p) else map_of d name)"
  by (simp add: merge_pair_def map_of_dict_set)

lemma map_of_rev_Cons:
  "map_of (rev (p # pairs)) name =
      (case map_of (rev pairs) name of Some v \<Rightarrow> Some v
       | None \<Rightarrow> if name = fst p then Some (snd p) else None)"
  by (cases p) (simp add: map_add_def split: option.splits)

lemma map_of_foldl_merge:
  "map_of (foldl merge_pair d pairs) name =
     (if startswith name ''x-''
      then (case map_of (rev pairs) name of Some v \<Rightarrow> Some v | None \<Rightarrow> map_of d name)
      else map_of d name)"
proof (induction pairs arbitrary: d)
  case Nil
  then show ?case by simp
next
  case (Cons p pairs)
  have "map_of (foldl merge_pair d (p # pairs)) name
          = map_of (foldl merge_pair (merge_pair d p) pairs) name"
    by simp
  also have "\<dots> = (if startswith name ''x-''
      then (case map_of (rev pairs) name of Some v \<Rightarrow> Some v
            | None \<Rightarrow> map_of (merge_pair d p) name)
      else map_of (merge_pair d p) name)"
    by (rule Cons.IH)
  also have "\<dots> = (if startswith name ''x-''
      then (case map_of (rev (p # pairs)) name of Some v \<Rightarrow> Some v | None \<Rightarrow> map_of d name)
      else map_of d name)"
    unfolding map_of_rev_Cons map_of_merge_pair
    by (cases "map_of (rev pairs) name") auto
  finally show ?case .
qed


lemma map_of_search_dict:
  assumes "startswith name ''x-''"
  shows "map_of (search_dict query operation opts exact) name = None"
proof -
  from assms have "name \<noteq> ''search''" "name \<noteq> ''op''" "name \<noteq> ''options''" "name \<noteq> ''exact''"
    by (auto simp: startswith_def)
  then show ?thesis by (simp add: search_dict_def)
qed

lemma search_params_pairs:
  assumes "operation = ''index'' \<or> startswith operation ''x-''"
    and "parse_options it options = Inr opts"
    and "pairs \<noteq> []"
  shows "search_params it query operation exact options (pairs_as_tuples pairs)
           = Inr (foldl merge_pair (search_dict query operation opts exact) pairs)"
proof -
  from assms(3) obtain p ps where ps: "pairs = p # ps" by (cases pairs) auto
  have first: "getitem (pairs_as_tuples pairs) 0 = Inr (Some [fst p, snd p])"
    by (simp add: ps pairs_as_tuples_def getitem_def)
  from assms(1) have "search_params it query operation exact options (pairs_as_tuples pairs)
          = bind_err (parse_options it options) (\<lambda>opts.
        bind_err (getitem (pairs_as_tuples pairs) 0) (\<lambda>first.
          if first \<noteq> None
          then add_variables (search_dict query operation opts exact) (pairs_as_tuples pairs)
          else Inr (search_dict query operation opts exact)))"
    unfolding search_params_def by auto
  also have "\<dots> = add_variables (search_dict query operation opts exact) (pairs_as_tuples pairs)"
    unfolding assms(2) first by (simp add: bind_err_def)
  finally show ?thesis by (simp add: add_variables_pairs)
qed

text \<open>
  C10. When the operation is accepted and the options encode, a search with extra
  pairs of name and value raises nothing: the pairs whose name begins with \<open>x-\<close> are
  merged in their order, and the others are left out. So under a name that begins with
  \<open>x-\<close> the parameters hold the value of the last pair of that name, and under any
  other name what the dictionary held before the pairs.
\<close>

theorem search_extra_variables:
  assumes "operation = ''index'' \<or> startswith operation ''x-''"
    and "parse_options it options = Inr opts"
    and "pairs \<noteq> []"
  shows "\<exists>params. search_params it query operation exact options (pairs_as_tuples pairs) = Inr params
         \<and> params = foldl merge_pair (search_dict query operation opts exact) pairs
         \<and> map_of params name
           = (if startswith name ''x-'' then map_of (rev pairs) name
              else map_of (search_dict query operation opts exact) name)"
proof -
  have b: "map_of (foldl merge_pair (search_dict query operation opts exact) pairs) name
           = (if startswith name ''x-'' then map_of (rev pairs) name
              else map_of (search_dict query operation opts exact) name)"
    unfolding map_of_foldl_merge
    by (cases "map_of (rev pairs) name") (simp_all add: map_of_search_dict)
  from search_params_pairs[OF assms] b show ?thesis by simp
qed


theorem search_extra_variables_witness:
  "\<exists>params.
     search_params (\<lambda>ops. ops) ''jane'' ''index'' ''maybe'' (Some [None])
       (pairs_as_tuples [(''x-a'', ''1''), (''op'', ''get''), (''x-a'', ''2'')]) = Inr params
     \<and> map_of params ''x-a'' = Some ''2'' \<and> map_of params ''op'' = Some ''index''"
proof -
  have h1: "''index'' = ''index'' \<or> startswith ''index'' ''x-''" by simp
  have h2: "parse_options (\<lambda>ops. ops) (Some [None]) = Inr ''mr''" by code_simp
  have h3: "[(''x-a'', ''1''), (''op'', ''get''), (''x-a'', ''2'')] \<noteq> []" by simp
  from search_extra_variables [OF h1 h2 h3, of "''jane''" "''maybe''" "''x-a''"]
  obtain params where
    p: "search_params (\<lambda>ops. ops) ''jane'' ''index'' ''maybe'' (Some [None])
          (pairs_as_tuples [(''x-a'', ''1''), (''op'', ''get''), (''x-a'', ''2'')]) = Inr params"
    and a: "map_of params ''x-a''
          = (if startswith ''x-a'' ''x-''
             then map_of (rev [(''x-a'', ''1''), (''op'', ''get''), (''x-a'', ''2'')]) ''x-a''
             else map_of (search_dict ''jane'' ''index'' ''mr'' ''maybe'') ''x-a'')"
    by blast
  from search_extra_variables [OF h1 h2 h3, of "''jane''" "''maybe''" "''op''"] p
  have b: "map_of params ''op''
          = (if startswith ''op'' ''x-''
             then map_of (rev [(''x-a'', ''1''), (''op'', ''get''), (''x-a'', ''2'')]) ''op''
             else map_of (search_dict ''jane'' ''index'' ''mr'' ''maybe'') ''op'')"
    by auto
  from a have "map_of params ''x-a'' = Some ''2''" by (simp add: startswith_def)
  moreover from b have "map_of params ''op'' = Some ''index''"
    by (simp add: startswith_def search_dict_def)
  ultimately show ?thesis using p by blast
qed

end
